theory Spec2Isabelle
  imports Main
begin

section \<open>Data model (core/models.py)\<close>

text \<open>
  A Python string is the list of its code points: \<^verbatim>\<open>len\<close> is the length of the list,
  a slice cuts between code points, and every character of Unicode has its own number.
  \<open>ascii\<close> writes a string literal of the source as such a list.
\<close>

type_synonym pystr = "nat list"

definition ascii :: "string \<Rightarrow> pystr" where
  "ascii s = map of_char s"

datatype billing_cycle = monthly | yearly | one_time | custom

record PricingTier =
  name :: pystr
  price :: pystr
  currency :: pystr
  billing_cycle :: billing_cycle

record CompetitorProduct =
  product_name :: pystr
  url :: pystr
  pricing_tiers :: "PricingTier list"
  core_features :: "pystr list"
  summary :: pystr
  last_updated :: nat

record ScrapingResult =
  raw_html :: pystr
  clean_text :: pystr
  screenshot_path :: "pystr option"

section \<open>Token-budget truncation (infrastructure/llm/extractor.py)\<close>

definition CHARS_PER_TOKEN :: nat where
  "CHARS_PER_TOKEN = 4"

definition MAX_TOKENS :: nat where
  "MAX_TOKENS = 15000"

definition TRUNCATE_CHARS :: nat where
  "TRUNCATE_CHARS = MAX_TOKENS * CHARS_PER_TOKEN"

text \<open>
  \<^verbatim>\<open>self.encoding\<close> is a tokenizer of the tiktoken library, chosen at construction
  from the model name. Its \<^verbatim>\<open>encode\<close> is taken as a parameter. \<open>encoding\<close> is
  \<^verbatim>\<open>encode\<close> where it returns: a function from a text to its list of token ids. That
  \<^verbatim>\<open>encode\<close> can also raise is part of \<open>tokenizer\<close> below.
\<close>

type_synonym encoding = "pystr \<Rightarrow> nat list"

definition count_tokens :: "encoding \<Rightarrow> pystr \<Rightarrow> nat" where
  "count_tokens enc text = length (enc text)"

text \<open>The slices \<^verbatim>\<open>s[:n]\<close> and \<^verbatim>\<open>s[-n:]\<close> of Python, for \<open>n \<ge> 0\<close>.\<close>

definition slice_to :: "nat \<Rightarrow> 'a list \<Rightarrow> 'a list" where
  "slice_to n s = take n s"

definition slice_last :: "nat \<Rightarrow> 'a list \<Rightarrow> 'a list" where
  "slice_last n s = (if n = 0 then s else drop (length s - n) s)"

text \<open>
  \<^verbatim>\<open>int(TRUNCATE_CHARS * 0.4)\<close>: the double product of 60000 and 0.4 rounds to
  24000.0, so the integer is the exact four tenths.
\<close>

definition keep_chars :: nat where
  "keep_chars = (TRUNCATE_CHARS * 4) div 10"

text \<open>The text the f-string puts between header and footer.\<close>

definition elision_marker :: pystr where
  "elision_marker =
     ascii ([CHR 0x0A, CHR 0x0A] @ ''[... content truncated ...]'' @ [CHR 0x0A, CHR 0x0A])"

definition truncate_content :: "encoding \<Rightarrow> pystr \<Rightarrow> pystr" where
  "truncate_content enc markdown_content =
     (let token_count = count_tokens enc markdown_content in
      if token_count \<le> MAX_TOKENS then markdown_content
      else
        let total_chars = length markdown_content in
        if total_chars \<le> TRUNCATE_CHARS then slice_to TRUNCATE_CHARS markdown_content
        else
          let header = slice_to keep_chars markdown_content;
              footer = slice_last keep_chars markdown_content
          in header @ elision_marker @ footer)"

text \<open>A tokenizer that makes one token of every character, used to run the definitions.\<close>

definition char_level :: encoding where
  "char_level text = text"

section \<open>Extraction call (infrastructure/llm/extractor.py)\<close>

text \<open>
  An exception raised inside the \<^verbatim>\<open>try\<close> block of \<^verbatim>\<open>extract_from_markdown\<close>,
  with its \<^verbatim>\<open>str(e)\<close>: pydantic's \<^verbatim>\<open>ValidationError\<close>, matched by the first
  handler, or any other \<^verbatim>\<open>Exception\<close>.
\<close>

datatype py_exception = ValidationError pystr | OtherException pystr

text \<open>
  What \<^verbatim>\<open>extract_from_markdown\<close> raises: the class, the message, and the exception
  named after \<^verbatim>\<open>from\<close>, which Python stores as \<^verbatim>\<open>__cause__\<close>.
\<close>

datatype exception_class = ValueError | Exception

record raised =
  exc_class :: exception_class
  exc_str :: pystr
  exc_cause :: py_exception

text \<open>
  \<^verbatim>\<open>encode\<close> as the library has it: on a text it rejects it raises, otherwise it
  returns the token ids.
\<close>

type_synonym tokenizer = "pystr \<Rightarrow> py_exception + nat list"

text \<open>
  \<^verbatim>\<open>_truncate_content\<close> as it runs inside the \<^verbatim>\<open>try\<close> block. Its first
  \<^verbatim>\<open>_count_tokens\<close> call may raise. Where it returns the tokens, the text computed is
  that of \<open>truncate_content\<close> for these tokens. Over the ceiling the log line counts the
  tokens of the truncated text before the function returns, and that call may raise too.
\<close>

definition truncate_content_in_try :: "tokenizer \<Rightarrow> pystr \<Rightarrow> py_exception + pystr" where
  "truncate_content_in_try tok markdown_content =
     (case tok markdown_content of
        Inl e \<Rightarrow> Inl e
      | Inr tokens \<Rightarrow>
          let truncated = truncate_content (\<lambda>text. tokens) markdown_content in
          if length tokens \<le> MAX_TOKENS then Inr truncated
          else (case tok truncated of
                  Inl e \<Rightarrow> Inl e
                | Inr logged \<Rightarrow> Inr truncated))"

text \<open>
  The substring test \<^verbatim>\<open>sub in s\<close>, and the test for the two markers in the lowered
  description. \<^verbatim>\<open>str.lower\<close> is the built-in of Python, with the case tables of
  Unicode; it is taken as the parameter \<open>str_lower\<close>.
\<close>

fun starts_with :: "'a list \<Rightarrow> 'a list \<Rightarrow> bool" where
  "starts_with [] s = True"
| "starts_with (a # as) [] = False"
| "starts_with (a # as) (c # cs) = (a = c \<and> starts_with as cs)"

fun str_contains :: "'a list \<Rightarrow> 'a list \<Rightarrow> bool" where
  "str_contains sub [] = (sub = [])"
| "str_contains sub (c # cs) = (starts_with sub (c # cs) \<or> str_contains sub cs)"

definition has_api_marker :: "(pystr \<Rightarrow> pystr) \<Rightarrow> pystr \<Rightarrow> bool" where
  "has_api_marker str_lower description =
     (str_contains (ascii ''api'') (str_lower description) \<or>
      str_contains (ascii ''openai'') (str_lower description))"

text \<open>
  \<^verbatim>\<open>self.structured_llm.ainvoke(messages)\<close>: the model client is a parameter. The
  two messages are fixed text around \<^verbatim>\<open>source_url\<close> and \<^verbatim>\<open>processed_content\<close>, so
  the call is a function of these two. It returns a record, or an exception is raised:
  by the call, or by the statements after it that use its result, should the client hand
  back something that is no record.
\<close>

type_synonym structured_llm = "pystr \<Rightarrow> pystr \<Rightarrow> py_exception + CompetitorProduct"

text \<open>What a run does to its collaborators, in order.\<close>

datatype event =
    Enter_scrape
  | Fetch_page_content pystr
  | Enter_extract
  | Extract_from_markdown pystr pystr
  | Llm_ainvoke pystr pystr

text \<open>
  The two \<^verbatim>\<open>except\<close> clauses: what is raised for an exception \<open>e\<close> of the
  \<^verbatim>\<open>try\<close> block.
\<close>

definition except_clauses :: "(pystr \<Rightarrow> pystr) \<Rightarrow> pystr \<Rightarrow> py_exception \<Rightarrow> raised" where
  "except_clauses str_lower source_url e =
     (case e of
        ValidationError m \<Rightarrow>
          \<lparr>exc_class = ValueError,
           exc_str = ascii ''Pydantic validation error during extraction: '' @ m,
           exc_cause = ValidationError m\<rparr>
      | OtherException m \<Rightarrow>
          if has_api_marker str_lower m
          then \<lparr>exc_class = ValueError,
                exc_str = ascii ''OpenAI API error: '' @ m,
                exc_cause = OtherException m\<rparr>
          else \<lparr>exc_class = Exception,
                exc_str = ascii ''LLM extraction failed for URL '' @ source_url @ ascii '': '' @ m,
                exc_cause = OtherException m\<rparr>)"

text \<open>
  The \<^verbatim>\<open>try\<close> block runs the truncation, then the model call, then overwrites the
  URL; an exception of either call goes to the \<^verbatim>\<open>except\<close> clauses.
\<close>

definition extract_from_markdown ::
  "(pystr \<Rightarrow> pystr) \<Rightarrow> tokenizer \<Rightarrow> structured_llm \<Rightarrow> pystr \<Rightarrow> pystr
     \<Rightarrow> (raised + CompetitorProduct) \<times> event list"
where
  "extract_from_markdown str_lower tok llm markdown_content source_url =
     (case truncate_content_in_try tok markdown_content of
        Inl e \<Rightarrow> (Inl (except_clauses str_lower source_url e), [])
      | Inr processed_content \<Rightarrow>
          (let calls = [Llm_ainvoke source_url processed_content]
           in case llm source_url processed_content of
                Inr result \<Rightarrow> (Inr (result\<lparr>CompetitorProduct.url := source_url\<rparr>), calls)
              | Inl e \<Rightarrow> (Inl (except_clauses str_lower source_url e), calls)))"

section \<open>Workflow (core/graph.py)\<close>

record AgentState =
  url :: pystr
  scraped_content :: "pystr option"
  product :: "CompetitorProduct option"
  error :: "pystr option"

text \<open>
  The browser service is a parameter: for a URL, \<^verbatim>\<open>start\<close> and
  \<^verbatim>\<open>fetch_page_content\<close> either give a result or raise an exception, of which the node
  reads \<^verbatim>\<open>str(e)\<close>.
\<close>

type_synonym browser_service = "pystr \<Rightarrow> pystr + ScrapingResult"

definition node_scrape :: "browser_service \<Rightarrow> AgentState \<Rightarrow> AgentState \<times> event list" where
  "node_scrape fetch_page_content state =
     (let u = AgentState.url state;
          calls = [Enter_scrape, Fetch_page_content u]
      in case fetch_page_content u of
           Inr result \<Rightarrow>
             (state\<lparr>scraped_content := Some (clean_text result), error := None\<rparr>, calls)
         | Inl e \<Rightarrow>
             (state\<lparr>error := Some (ascii ''Failed to scrape URL '' @ u @ ascii '': '' @ e),
                    scraped_content := None\<rparr>, calls))"

text \<open>\<^verbatim>\<open>not scraped_content\<close> is true of \<^verbatim>\<open>None\<close> and of the empty string.\<close>

definition node_extract ::
  "(pystr \<Rightarrow> pystr) \<Rightarrow> tokenizer \<Rightarrow> structured_llm \<Rightarrow> AgentState \<Rightarrow> AgentState \<times> event list"
where
  "node_extract str_lower tok llm state =
     (let u = AgentState.url state in
      case scraped_content state of
        None \<Rightarrow>
          (state\<lparr>error := Some (ascii ''Cannot extract: scraped_content is missing''),
                 product := None\<rparr>, [Enter_extract])
      | Some content \<Rightarrow>
          if content = []
          then (state\<lparr>error := Some (ascii ''Cannot extract: scraped_content is missing''),
                      product := None\<rparr>, [Enter_extract])
          else
            (case extract_from_markdown str_lower tok llm content u of
               (Inr p, calls) \<Rightarrow>
                 (state\<lparr>product := Some p, error := None\<rparr>,
                  [Enter_extract, Extract_from_markdown content u] @ calls)
             | (Inl e, calls) \<Rightarrow>
                 (state\<lparr>error :=
                          Some (ascii ''Failed to extract product information from '' @ u
                                @ ascii '': '' @ exc_str e),
                        product := None\<rparr>,
                  [Enter_extract, Extract_from_markdown content u] @ calls)))"

text \<open>
  The conditional edge. \<^verbatim>\<open>state.get("error")\<close> is tested for truth: \<^verbatim>\<open>None\<close> and
  the empty string both count as no error.
\<close>

datatype next_node = Next_extract | Next_end

definition should_continue :: "AgentState \<Rightarrow> next_node" where
  "should_continue state =
     (case error state of
        None \<Rightarrow> Next_extract
      | Some msg \<Rightarrow> if msg = [] then Next_extract else Next_end)"

text \<open>
  The compiled graph: entry point \<^verbatim>\<open>scrape\<close>, the conditional edge after it, and the
  edge from \<^verbatim>\<open>extract\<close> to the end.
\<close>

definition graph ::
  "browser_service \<Rightarrow> (pystr \<Rightarrow> pystr) \<Rightarrow> tokenizer \<Rightarrow> structured_llm \<Rightarrow> AgentState
     \<Rightarrow> AgentState \<times> event list"
where
  "graph fetch_page_content str_lower tok llm initial_state =
     (case node_scrape fetch_page_content initial_state of
        (s1, t1) \<Rightarrow>
          (case should_continue s1 of
             Next_end \<Rightarrow> (s1, t1)
           | Next_extract \<Rightarrow>
               (case node_extract str_lower tok llm s1 of (s2, t2) \<Rightarrow> (s2, t1 @ t2))))"

section \<open>Scroll revelation (infrastructure/browser/crawler.py)\<close>

text \<open>
  The Playwright page is a parameter: a state \<open>'p\<close> with the three things
  \<^verbatim>\<open>_auto_scroll\<close> does to it. \<open>scroll_height\<close> reads
  \<^verbatim>\<open>document.body.scrollHeight\<close>, \<open>scroll_to\<close> runs \<^verbatim>\<open>window.scrollTo\<close>, and
  \<open>elapse\<close> is what the page becomes while the task sleeps (milliseconds), which is
  when lazy content mounts.
\<close>

datatype scroll_target = Bottom | Top

record 'p page_api =
  scroll_height :: "'p \<Rightarrow> int"
  scroll_to :: "scroll_target \<Rightarrow> 'p \<Rightarrow> 'p"
  elapse :: "nat \<Rightarrow> 'p \<Rightarrow> 'p"

text \<open>
  The \<^verbatim>\<open>for i in range(max_scrolls)\<close> loop: \<open>remaining\<close> counts the iterations
  left, \<open>i\<close> those done. The result is the page and the number of iterations run.
\<close>

fun scroll_loop :: "'p page_api \<Rightarrow> nat \<Rightarrow> nat \<Rightarrow> 'p \<Rightarrow> 'p \<times> nat" where
  "scroll_loop api 0 i page = (page, i)"
| "scroll_loop api (Suc remaining) i page =
     (let previous_height = scroll_height api page;
          page1 = scroll_to api Bottom page;
          page2 = elapse api 1000 page1;
          new_height = scroll_height api page2
      in if previous_height = new_height then (page2, Suc i)
         else scroll_loop api remaining (Suc i) page2)"

definition auto_scroll :: "'p page_api \<Rightarrow> 'p \<Rightarrow> nat \<Rightarrow> 'p \<times> nat" where
  "auto_scroll api page max_scrolls =
     (case scroll_loop api max_scrolls 0 page of
        (page1, n) \<Rightarrow> (elapse api 500 (scroll_to api Top page1), n))"

text \<open>One loop iteration's effect on the page, and whether iteration \<open>j\<close> (from 0) of a
  run from \<open>page\<close> finds the height unchanged.\<close>

definition scroll_step :: "'p page_api \<Rightarrow> 'p \<Rightarrow> 'p" where
  "scroll_step api page = elapse api 1000 (scroll_to api Bottom page)"

definition stable_at :: "'p page_api \<Rightarrow> 'p \<Rightarrow> nat \<Rightarrow> bool" where
  "stable_at api page j =
     (scroll_height api ((scroll_step api ^^ j) page) =
      scroll_height api ((scroll_step api ^^ Suc j) page))"


section \<open>Concrete collaborators for running the definitions\<close>

text \<open>
  Stubs in the manner of tests/test_graph.py: its initial state, its browser that fails
  with "Network error" and its browser that returns the test page; further a browser
  whose page renders to the empty text, and model clients that return a record (with a
  relative URL of their own), fail validation, fail with a provider message, fail with
  a message that names the provider only through a capital I with dot (U+0130), or fail
  otherwise.
\<close>

definition initial_state :: AgentState where
  "initial_state =
     \<lparr>url = ascii ''https://example.com'', scraped_content = None, product = None,
      error = None\<rparr>"

definition failing_browser :: browser_service where
  "failing_browser u = Inl (ascii ''Network error'')"

definition mock_browser :: browser_service where
  "mock_browser u =
     Inr \<lparr>raw_html = ascii ''<html><body>Test</body></html>'',
          clean_text = ascii ''# Test Product'',
          screenshot_path = None\<rparr>"

definition blank_browser :: browser_service where
  "blank_browser u =
     Inr \<lparr>raw_html = ascii ''<html><body></body></html>'', clean_text = [],
          screenshot_path = None\<rparr>"

definition mock_product :: CompetitorProduct where
  "mock_product =
     \<lparr>product_name = ascii ''Test Product'', url = ascii ''/pricing'', pricing_tiers = [],
      core_features = [], summary = ascii ''Test summary'', last_updated = 0\<rparr>"

definition mock_llm :: structured_llm where
  "mock_llm source_url content = Inr mock_product"

definition invalid_llm :: structured_llm where
  "invalid_llm source_url content =
     Inl (ValidationError (ascii ''1 validation error for CompetitorProduct''))"

definition rate_limited_llm :: structured_llm where
  "rate_limited_llm source_url content =
     Inl (OtherException (ascii ''Rate limit reached (OpenAI)''))"

definition dotted_llm :: structured_llm where
  "dotted_llm source_url content =
     Inl (OtherException (ascii ''AP'' @ [0x130] @ ascii '' down''))"

definition broken_llm :: structured_llm where
  "broken_llm source_url content = Inl (OtherException (ascii ''Connection reset by peer''))"

text \<open>
  A tokenizer that returns for every text, and one that, as tiktoken does, raises on a
  text that spells a special token.
\<close>

definition accepting :: "encoding \<Rightarrow> tokenizer" where
  "accepting enc text = Inr (enc text)"

definition strict_char_level :: tokenizer where
  "strict_char_level text =
     (if str_contains (ascii ''<|endoftext|>'') text
      then Inl (OtherException
                  (ascii ''Encountered text corresponding to disallowed special token''))
      else Inr text)"

text \<open>
  A stub for \<^verbatim>\<open>str.lower\<close>, right on the characters the other stubs use: the ASCII
  letters, U+0130 (which lowers to i followed by U+0307), and the ASCII characters
  without case. Any other character it leaves as it is.
\<close>

definition sample_lower :: "pystr \<Rightarrow> pystr" where
  "sample_lower s =
     concat (map (\<lambda>c. if 65 \<le> c \<and> c \<le> 90 then [c + 32]
                       else if c = 0x130 then [105, 0x307]
                       else [c]) s)"

text \<open>
  Two pages, the state being the number of lazy sections mounted so far: one mounts a
  section on every scroll to the bottom, for ever; the other has three sections to mount.
\<close>

definition endless_page :: "nat page_api" where
  "endless_page =
     \<lparr>scroll_height = (\<lambda>p. 1080 + 600 * int p),
      scroll_to = (\<lambda>t p. case t of Bottom \<Rightarrow> Suc p | Top \<Rightarrow> p),
      elapse = (\<lambda>ms p. p)\<rparr>"

definition settling_page :: "nat page_api" where
  "settling_page =
     \<lparr>scroll_height = (\<lambda>p. 1080 + 600 * int (min p 3)),
      scroll_to = (\<lambda>t p. case t of Bottom \<Rightarrow> Suc p | Top \<Rightarrow> p),
      elapse = (\<lambda>ms p. p)\<rparr>"

text \<open>A field of the state is set when it is not \<^verbatim>\<open>None\<close>.\<close>

definition is_set :: "'a option \<Rightarrow> bool" where
  "is_set x = (x \<noteq> None)"

section \<open>Truncation\<close>

lemma TRUNCATE_CHARS_value: "TRUNCATE_CHARS = 60000"
  by (simp add: TRUNCATE_CHARS_def MAX_TOKENS_def CHARS_PER_TOKEN_def)

lemma keep_chars_value: "keep_chars = 24000"
  by (simp add: keep_chars_def TRUNCATE_CHARS_value)

lemma length_elision_marker: "length elision_marker = 31"
  by (simp add: elision_marker_def ascii_def)

lemma count_tokens_char_level: "count_tokens char_level text = length text"
  by (simp add: count_tokens_def char_level_def)

lemma truncate_content_within_budget:
  "count_tokens enc text \<le> MAX_TOKENS \<Longrightarrow> truncate_content enc text = text"
  by (simp add: truncate_content_def)

lemma truncate_content_prefix_branch:
  assumes "MAX_TOKENS < count_tokens enc text" and "length text \<le> TRUNCATE_CHARS"
  shows "truncate_content enc text = take TRUNCATE_CHARS text"
  using assms by (simp add: truncate_content_def slice_to_def)

lemma truncate_content_split_branch:
  assumes "MAX_TOKENS < count_tokens enc text" and "TRUNCATE_CHARS < length text"
  shows "truncate_content enc text =
           take keep_chars text @ elision_marker @ drop (length text - keep_chars) text"
  using assms
  by (simp add: truncate_content_def slice_to_def slice_last_def keep_chars_value)

lemma starts_with_self_append: "starts_with sub (sub @ rest)"
  by (induction sub) simp_all

lemma str_contains_here: "str_contains sub (sub @ rest)"
proof (cases "sub @ rest")
  case Nil
  then show ?thesis by simp
next
  case (Cons c cs)
  have "starts_with sub (sub @ rest)"
    by (rule starts_with_self_append)
  with Cons show ?thesis by simp
qed

lemma str_contains_later: "str_contains sub (before @ sub @ rest)"
  by (induction before) (simp_all add: str_contains_here)

text \<open>
  What the code alone fixes about the two branches over the ceiling, for every tokenizer:
  the prefix branch returns a text with the token count of its input, and the split
  branch returns a text of 48031 characters that contains the marker. How many tokens
  the tokenizer counts in the split text is logged by the code and not compared with
  anything.
\<close>

lemma truncate_content_prefix_same_count:
  assumes "MAX_TOKENS < count_tokens enc text" and "length text \<le> TRUNCATE_CHARS"
  shows "count_tokens enc (truncate_content enc text) = count_tokens enc text"
  using truncate_content_prefix_branch [OF assms] assms(2) by simp

lemma truncate_content_split_marker:
  assumes "MAX_TOKENS < count_tokens enc text" and "TRUNCATE_CHARS < length text"
  shows "str_contains elision_marker (truncate_content enc text)"
  using truncate_content_split_branch [OF assms] by (simp add: str_contains_later)

lemma truncate_content_split_length:
  assumes "MAX_TOKENS < count_tokens enc text" and "TRUNCATE_CHARS < length text"
  shows "length (truncate_content enc text) = 48031"
  using truncate_content_split_branch [OF assms] assms(2)
  by (simp add: keep_chars_value TRUNCATE_CHARS_value length_elision_marker)

text \<open>
  C3. A text whose token count is at most the ceiling of 15000 tokens comes back from
  the truncation unchanged.
\<close>

theorem C3_within_ceiling_unchanged:
  "count_tokens enc text \<le> 15000 \<Longrightarrow> truncate_content enc text = text"
  using truncate_content_within_budget [of enc "text"] by (simp add: MAX_TOKENS_def)

theorem C3_within_ceiling_unchanged_witness:
  "count_tokens char_level (ascii ''# Test Product'') \<le> 15000 \<and>
   truncate_content char_level (ascii ''# Test Product'') = ascii ''# Test Product''"
  using C3_within_ceiling_unchanged [of char_level "ascii ''# Test Product''"]
  by (simp add: count_tokens_char_level ascii_def)

text \<open>
  C5. The character budget is 15000 tokens times 4 characters, and the kept length is
  four tenths of it. A text over the token ceiling that is longer than the budget comes
  back as its first 24000 characters, the elision marker, and its last 24000 characters;
  one no longer than the budget comes back cut to its first 60000 characters.
\<close>

theorem C5_head_marker_tail:
  assumes "15000 < count_tokens enc text"
  shows "TRUNCATE_CHARS = 15000 * 4 \<and> 10 * keep_chars = 4 * TRUNCATE_CHARS \<and>
         truncate_content enc text =
           (if 60000 < length text
            then take 24000 text @ elision_marker @ drop (length text - 24000) text
            else take 60000 text) \<and>
         (if 60000 < length text
          then length (take 24000 text) = 24000 \<and>
               length (drop (length text - 24000) text) = 24000
          else True)"
proof -
  from assms have over: "MAX_TOKENS < count_tokens enc text"
    by (simp add: MAX_TOKENS_def)
  show ?thesis
  proof (cases "60000 < length text")
    case True
    then have "TRUNCATE_CHARS < length text" by (simp add: TRUNCATE_CHARS_value)
    from truncate_content_split_branch [OF over this] True show ?thesis
      by (simp add: TRUNCATE_CHARS_value keep_chars_value)
  next
    case False
    then have "length text \<le> TRUNCATE_CHARS" by (simp add: TRUNCATE_CHARS_value)
    from truncate_content_prefix_branch [OF over this] False show ?thesis
      by (simp add: TRUNCATE_CHARS_value keep_chars_value)
  qed
qed

theorem C5_head_marker_tail_witness:
  "15000 < count_tokens char_level (replicate 30000 (of_char (CHR ''a'')) @ replicate 30001 (of_char (CHR ''b''))) \<and>
   truncate_content char_level (replicate 30000 (of_char (CHR ''a'')) @ replicate 30001 (of_char (CHR ''b''))) =
     replicate 24000 (of_char (CHR ''a'')) @ elision_marker @ replicate 24000 (of_char (CHR ''b'')) \<and>
   15000 < count_tokens char_level (replicate 20000 (of_char (CHR ''a''))) \<and>
   truncate_content char_level (replicate 20000 (of_char (CHR ''a''))) =
     take 60000 (replicate 20000 (of_char (CHR ''a'')))"
  using C5_head_marker_tail [of char_level "replicate 30000 (of_char (CHR ''a'')) @ replicate 30001 (of_char (CHR ''b''))"]
    C5_head_marker_tail [of char_level "replicate 20000 (of_char (CHR ''a''))"]
  by (simp add: count_tokens_char_level)

text \<open>
  C9. A text over the token ceiling whose length is at most the 60000-character budget
  comes back unchanged: the prefix cut of that branch removes nothing.
\<close>

theorem C9_prefix_cut_is_identity:
  assumes "15000 < count_tokens enc text" and "length text \<le> 60000"
  shows "truncate_content enc text = text"
proof -
  from assms have "MAX_TOKENS < count_tokens enc text" and "length text \<le> TRUNCATE_CHARS"
    by (simp_all add: MAX_TOKENS_def TRUNCATE_CHARS_value)
  then have "truncate_content enc text = take TRUNCATE_CHARS text"
    by (rule truncate_content_prefix_branch)
  with assms(2) show ?thesis by (simp add: TRUNCATE_CHARS_value)
qed

theorem C9_prefix_cut_is_identity_witness:
  "15000 < count_tokens char_level (replicate 15001 (of_char (CHR ''a''))) \<and>
   length (replicate 15001 (of_char (CHR ''a''))) \<le> 60000 \<and>
   truncate_content char_level (replicate 15001 (of_char (CHR ''a''))) = replicate 15001 (of_char (CHR ''a''))"
  using C9_prefix_cut_is_identity [of char_level "replicate 15001 (of_char (CHR ''a''))"]
  by (simp add: count_tokens_char_level)


section \<open>Extraction call\<close>

lemma truncate_content_tokens_only:
  "enc text = enc' text \<Longrightarrow> truncate_content enc text = truncate_content enc' text"
  by (simp add: truncate_content_def count_tokens_def)

lemma truncate_content_in_try_accepting:
  "truncate_content_in_try (accepting enc) text = Inr (truncate_content enc text)"
proof -
  have "truncate_content (\<lambda>t. enc text) text = truncate_content enc text"
    by (rule truncate_content_tokens_only) simp
  then show ?thesis
    by (simp add: truncate_content_in_try_def accepting_def Let_def)
qed

text \<open>
  The places of the \<^verbatim>\<open>try\<close> block that can raise are the two token counts and the
  model call; where none of them raises, the call returns a record.
\<close>

lemma truncate_content_in_try_raises_iff:
  "truncate_content_in_try tok text = Inl e \<longleftrightarrow>
     tok text = Inl e \<or>
     (\<exists>tokens. tok text = Inr tokens \<and> MAX_TOKENS < length tokens \<and>
        tok (truncate_content (\<lambda>t. tokens) text) = Inl e)"
  by (auto simp: truncate_content_in_try_def Let_def split: sum.splits)

lemma extract_from_markdown_returns_iff:
  "fst (extract_from_markdown str_lower tok llm markdown_content source_url) = Inr p \<longleftrightarrow>
     (\<exists>processed_content result.
        truncate_content_in_try tok markdown_content = Inr processed_content \<and>
        llm source_url processed_content = Inr result \<and>
        p = result\<lparr>CompetitorProduct.url := source_url\<rparr>)"
  by (auto simp: extract_from_markdown_def Let_def split: sum.splits)

lemma truncate_content_in_try_short_text:
  assumes "tok text = Inr tokens" and "MAX_TOKENS < length tokens"
    and "length text \<le> TRUNCATE_CHARS"
  shows "truncate_content_in_try tok text = Inr text"
proof -
  have "MAX_TOKENS < count_tokens (\<lambda>t. tokens) text"
    using assms(2) by (simp add: count_tokens_def)
  from truncate_content_prefix_branch [OF this assms(3)] assms(3)
  have "truncate_content (\<lambda>t. tokens) text = text" by simp
  with assms(1,2) show ?thesis
    by (simp add: truncate_content_in_try_def)
qed

lemma except_clauses_cause: "exc_cause (except_clauses str_lower source_url e) = e"
  by (simp add: except_clauses_def split: py_exception.splits)

text \<open>
  C6. Whenever the extraction call succeeds, the URL of the returned record is the
  source URL the caller gave, whatever URL the model put there.
\<close>

theorem C6_url_overwritten:
  "fst (extract_from_markdown str_lower tok llm markdown_content source_url) = Inr p \<Longrightarrow>
     CompetitorProduct.url p = source_url"
  by (auto simp: extract_from_markdown_returns_iff)

theorem C6_url_overwritten_witness:
  "CompetitorProduct.url mock_product = ascii ''/pricing'' \<and>
   fst (extract_from_markdown sample_lower (accepting char_level) mock_llm
          (ascii ''# Test Product'') (ascii ''https://example.com'')) =
     Inr (mock_product\<lparr>CompetitorProduct.url := ascii ''https://example.com''\<rparr>) \<and>
   CompetitorProduct.url (mock_product\<lparr>CompetitorProduct.url := ascii ''https://example.com''\<rparr>) =
     ascii ''https://example.com''"
proof -
  have run:
    "fst (extract_from_markdown sample_lower (accepting char_level) mock_llm
            (ascii ''# Test Product'') (ascii ''https://example.com'')) =
       Inr (mock_product\<lparr>CompetitorProduct.url := ascii ''https://example.com''\<rparr>)"
    by (simp add: extract_from_markdown_def truncate_content_in_try_accepting mock_llm_def)
  from C6_url_overwritten [OF run] run show ?thesis
    by (simp add: mock_product_def)
qed

text \<open>
  C8. Take any exception \<open>e\<close> raised inside the \<^verbatim>\<open>try\<close> block of the extraction
  call: by the tokenizer on the text, by the tokenizer on the truncated text when the
  log line counts it, or by the model call and the use of its result. Then the
  extraction call fails too (it never returns a record), and what it raises carries
  \<open>e\<close> as its cause. A validation failure
  is raised as a \<^verbatim>\<open>ValueError\<close> whose message starts with the validation prefix and
  not with the API prefix. Any other failure is classed by its description: with the
  marker "api" or "openai" in its lowered text it is raised as a \<^verbatim>\<open>ValueError\<close>
  with the API prefix (and not the validation prefix), without it as an
  \<^verbatim>\<open>Exception\<close> naming the URL. This holds whatever \<^verbatim>\<open>str.lower\<close> does to the
  description.
\<close>

theorem C8_failures_typed_with_cause:
  assumes
    "tok markdown_content = Inl e \<or>
     (\<exists>tokens. tok markdown_content = Inr tokens \<and> MAX_TOKENS < length tokens \<and>
        tok (truncate_content (\<lambda>t. tokens) markdown_content) = Inl e) \<or>
     (\<exists>processed_content.
        truncate_content_in_try tok markdown_content = Inr processed_content \<and>
        llm source_url processed_content = Inl e)"
  shows
    "\<exists>r. fst (extract_from_markdown str_lower tok llm markdown_content source_url) = Inl r \<and>
         exc_cause r = e \<and>
         (case e of
            ValidationError m \<Rightarrow>
              exc_class r = ValueError \<and>
              exc_str r = ascii ''Pydantic validation error during extraction: '' @ m \<and>
              \<not> starts_with (ascii ''OpenAI API error: '') (exc_str r)
          | OtherException m \<Rightarrow>
              if has_api_marker str_lower m
              then exc_class r = ValueError \<and>
                   exc_str r = ascii ''OpenAI API error: '' @ m \<and>
                   \<not> starts_with (ascii ''Pydantic validation error during extraction: '')
                       (exc_str r)
              else exc_class r = Exception \<and>
                   exc_str r =
                     ascii ''LLM extraction failed for URL '' @ source_url @ ascii '': '' @ m)"
proof -
  have raised: "fst (extract_from_markdown str_lower tok llm markdown_content source_url) =
                  Inl (except_clauses str_lower source_url e)"
  proof (cases "truncate_content_in_try tok markdown_content")
    case (Inl e')
    with assms have "e' = e"
      by (auto simp: truncate_content_in_try_raises_iff)
    with Inl show ?thesis
      by (simp add: extract_from_markdown_def)
  next
    case (Inr processed_content)
    with assms have "llm source_url processed_content = Inl e"
      using truncate_content_in_try_raises_iff [of tok markdown_content e] by auto
    with Inr show ?thesis
      by (simp add: extract_from_markdown_def)
  qed
  have "case e of
          ValidationError m \<Rightarrow>
            exc_class (except_clauses str_lower source_url e) = ValueError \<and>
            exc_str (except_clauses str_lower source_url e) =
              ascii ''Pydantic validation error during extraction: '' @ m \<and>
            \<not> starts_with (ascii ''OpenAI API error: '')
                (exc_str (except_clauses str_lower source_url e))
        | OtherException m \<Rightarrow>
            if has_api_marker str_lower m
            then exc_class (except_clauses str_lower source_url e) = ValueError \<and>
                 exc_str (except_clauses str_lower source_url e) =
                   ascii ''OpenAI API error: '' @ m \<and>
                 \<not> starts_with (ascii ''Pydantic validation error during extraction: '')
                     (exc_str (except_clauses str_lower source_url e))
            else exc_class (except_clauses str_lower source_url e) = Exception \<and>
                 exc_str (except_clauses str_lower source_url e) =
                   ascii ''LLM extraction failed for URL '' @ source_url @ ascii '': '' @ m"
    by (cases e) (simp_all add: except_clauses_def ascii_def)
  with raised except_clauses_cause [of str_lower source_url e] show ?thesis
    by blast
qed

theorem C8_failures_typed_with_cause_witness:
  "fst (extract_from_markdown sample_lower strict_char_level mock_llm
          (ascii ''<|endoftext|>'') (ascii ''https://example.com'')) =
     Inl \<lparr>exc_class = Exception,
          exc_str = ascii ''LLM extraction failed for URL https://example.com: Encountered text corresponding to disallowed special token'',
          exc_cause = OtherException
            (ascii ''Encountered text corresponding to disallowed special token'')\<rparr> \<and>
   fst (extract_from_markdown sample_lower (accepting char_level) invalid_llm
          (ascii ''# Test Product'') (ascii ''https://example.com'')) =
     Inl \<lparr>exc_class = ValueError,
          exc_str = ascii ''Pydantic validation error during extraction: 1 validation error for CompetitorProduct'',
          exc_cause = ValidationError (ascii ''1 validation error for CompetitorProduct'')\<rparr> \<and>
   has_api_marker sample_lower (ascii ''Rate limit reached (OpenAI)'') \<and>
   fst (extract_from_markdown sample_lower (accepting char_level) rate_limited_llm
          (ascii ''# Test Product'') (ascii ''https://example.com'')) =
     Inl \<lparr>exc_class = ValueError,
          exc_str = ascii ''OpenAI API error: Rate limit reached (OpenAI)'',
          exc_cause = OtherException (ascii ''Rate limit reached (OpenAI)'')\<rparr> \<and>
   has_api_marker sample_lower (ascii ''AP'' @ [0x130] @ ascii '' down'') \<and>
   fst (extract_from_markdown sample_lower (accepting char_level) dotted_llm
          (ascii ''# Test Product'') (ascii ''https://example.com'')) =
     Inl \<lparr>exc_class = ValueError,
          exc_str = ascii ''OpenAI API error: AP'' @ [0x130] @ ascii '' down'',
          exc_cause = OtherException (ascii ''AP'' @ [0x130] @ ascii '' down'')\<rparr> \<and>
   \<not> has_api_marker sample_lower (ascii ''Connection reset by peer'') \<and>
   fst (extract_from_markdown sample_lower (accepting char_level) broken_llm
          (ascii ''# Test Product'') (ascii ''https://example.com'')) =
     Inl \<lparr>exc_class = Exception,
          exc_str = ascii ''LLM extraction failed for URL https://example.com: Connection reset by peer'',
          exc_cause = OtherException (ascii ''Connection reset by peer'')\<rparr>"
proof -
  have m0: "\<not> has_api_marker sample_lower
              (ascii ''Encountered text corresponding to disallowed special token'')"
    by code_simp
  have m1: "has_api_marker sample_lower (ascii ''Rate limit reached (OpenAI)'')"
    by code_simp
  have m2: "has_api_marker sample_lower (ascii ''AP'' @ [0x130] @ ascii '' down'')"
    by code_simp
  have m3: "\<not> has_api_marker sample_lower (ascii ''Connection reset by peer'')"
    by code_simp
  have ok: "truncate_content_in_try (accepting char_level) (ascii ''# Test Product'') =
              Inr (truncate_content char_level (ascii ''# Test Product''))"
    by (rule truncate_content_in_try_accepting)
  have "strict_char_level (ascii ''<|endoftext|>'') =
          Inl (OtherException
                 (ascii ''Encountered text corresponding to disallowed special token''))"
    by code_simp
  then have
    "strict_char_level (ascii ''<|endoftext|>'') =
       Inl (OtherException
              (ascii ''Encountered text corresponding to disallowed special token'')) \<or>
     (\<exists>tokens. strict_char_level (ascii ''<|endoftext|>'') = Inr tokens \<and>
        MAX_TOKENS < length tokens \<and>
        strict_char_level (truncate_content (\<lambda>t. tokens) (ascii ''<|endoftext|>'')) =
          Inl (OtherException
                 (ascii ''Encountered text corresponding to disallowed special token''))) \<or>
     (\<exists>processed_content.
        truncate_content_in_try strict_char_level (ascii ''<|endoftext|>'') =
          Inr processed_content \<and>
        mock_llm (ascii ''https://example.com'') processed_content =
          Inl (OtherException
                 (ascii ''Encountered text corresponding to disallowed special token'')))"
    by (rule disjI1)
  from C8_failures_typed_with_cause
    [where str_lower = sample_lower and tok = "strict_char_level" and llm = mock_llm
      and markdown_content = "ascii ''<|endoftext|>''" and source_url = "ascii ''https://example.com''"
      and e = "OtherException
        (ascii ''Encountered text corresponding to disallowed special token'')", OF this]
  m0 have a:
    "fst (extract_from_markdown sample_lower strict_char_level mock_llm
            (ascii ''<|endoftext|>'') (ascii ''https://example.com'')) =
       Inl \<lparr>exc_class = Exception,
            exc_str = ascii ''LLM extraction failed for URL https://example.com: Encountered text corresponding to disallowed special token'',
            exc_cause = OtherException
              (ascii ''Encountered text corresponding to disallowed special token'')\<rparr>"
    by (auto simp: ascii_def)
  have "invalid_llm (ascii ''https://example.com'')
          (truncate_content char_level (ascii ''# Test Product'')) =
        Inl (ValidationError (ascii ''1 validation error for CompetitorProduct''))"
    by (simp add: invalid_llm_def)
  with ok have
    "accepting char_level (ascii ''# Test Product'') =
       Inl (ValidationError (ascii ''1 validation error for CompetitorProduct'')) \<or>
     (\<exists>tokens. accepting char_level (ascii ''# Test Product'') = Inr tokens \<and>
        MAX_TOKENS < length tokens \<and>
        accepting char_level (truncate_content (\<lambda>t. tokens) (ascii ''# Test Product'')) =
          Inl (ValidationError (ascii ''1 validation error for CompetitorProduct''))) \<or>
     (\<exists>processed_content.
        truncate_content_in_try (accepting char_level) (ascii ''# Test Product'') =
          Inr processed_content \<and>
        invalid_llm (ascii ''https://example.com'') processed_content =
          Inl (ValidationError (ascii ''1 validation error for CompetitorProduct'')))"
    by blast
  from C8_failures_typed_with_cause
    [where str_lower = sample_lower and tok = "accepting char_level" and llm = invalid_llm
      and markdown_content = "ascii ''# Test Product''" and source_url = "ascii ''https://example.com''"
      and e = "ValidationError (ascii ''1 validation error for CompetitorProduct'')", OF this]
  have b:
    "fst (extract_from_markdown sample_lower (accepting char_level) invalid_llm
            (ascii ''# Test Product'') (ascii ''https://example.com'')) =
       Inl \<lparr>exc_class = ValueError,
            exc_str = ascii ''Pydantic validation error during extraction: 1 validation error for CompetitorProduct'',
            exc_cause = ValidationError (ascii ''1 validation error for CompetitorProduct'')\<rparr>"
    by (auto simp: ascii_def)
  have "rate_limited_llm (ascii ''https://example.com'')
          (truncate_content char_level (ascii ''# Test Product'')) =
        Inl (OtherException (ascii ''Rate limit reached (OpenAI)''))"
    by (simp add: rate_limited_llm_def)
  with ok have
    "accepting char_level (ascii ''# Test Product'') =
       Inl (OtherException (ascii ''Rate limit reached (OpenAI)'')) \<or>
     (\<exists>tokens. accepting char_level (ascii ''# Test Product'') = Inr tokens \<and>
        MAX_TOKENS < length tokens \<and>
        accepting char_level (truncate_content (\<lambda>t. tokens) (ascii ''# Test Product'')) =
          Inl (OtherException (ascii ''Rate limit reached (OpenAI)''))) \<or>
     (\<exists>processed_content.
        truncate_content_in_try (accepting char_level) (ascii ''# Test Product'') =
          Inr processed_content \<and>
        rate_limited_llm (ascii ''https://example.com'') processed_content =
          Inl (OtherException (ascii ''Rate limit reached (OpenAI)'')))"
    by blast
  from C8_failures_typed_with_cause
    [where str_lower = sample_lower and tok = "accepting char_level" and llm = rate_limited_llm
      and markdown_content = "ascii ''# Test Product''" and source_url = "ascii ''https://example.com''"
      and e = "OtherException (ascii ''Rate limit reached (OpenAI)'')", OF this]
  m1 have c:
    "fst (extract_from_markdown sample_lower (accepting char_level) rate_limited_llm
            (ascii ''# Test Product'') (ascii ''https://example.com'')) =
       Inl \<lparr>exc_class = ValueError,
            exc_str = ascii ''OpenAI API error: Rate limit reached (OpenAI)'',
            exc_cause = OtherException (ascii ''Rate limit reached (OpenAI)'')\<rparr>"
    by (auto simp: ascii_def)
  have "dotted_llm (ascii ''https://example.com'')
          (truncate_content char_level (ascii ''# Test Product'')) =
        Inl (OtherException (ascii ''AP'' @ [0x130] @ ascii '' down''))"
    by (simp add: dotted_llm_def)
  with ok have
    "accepting char_level (ascii ''# Test Product'') =
       Inl (OtherException (ascii ''AP'' @ [0x130] @ ascii '' down'')) \<or>
     (\<exists>tokens. accepting char_level (ascii ''# Test Product'') = Inr tokens \<and>
        MAX_TOKENS < length tokens \<and>
        accepting char_level (truncate_content (\<lambda>t. tokens) (ascii ''# Test Product'')) =
          Inl (OtherException (ascii ''AP'' @ [0x130] @ ascii '' down''))) \<or>
     (\<exists>processed_content.
        truncate_content_in_try (accepting char_level) (ascii ''# Test Product'') =
          Inr processed_content \<and>
        dotted_llm (ascii ''https://example.com'') processed_content =
          Inl (OtherException (ascii ''AP'' @ [0x130] @ ascii '' down'')))"
    by blast
  from C8_failures_typed_with_cause
    [where str_lower = sample_lower and tok = "accepting char_level" and llm = dotted_llm
      and markdown_content = "ascii ''# Test Product''" and source_url = "ascii ''https://example.com''"
      and e = "OtherException (ascii ''AP'' @ [0x130] @ ascii '' down'')", OF this]
  m2 have d:
    "fst (extract_from_markdown sample_lower (accepting char_level) dotted_llm
            (ascii ''# Test Product'') (ascii ''https://example.com'')) =
       Inl \<lparr>exc_class = ValueError,
            exc_str = ascii ''OpenAI API error: AP'' @ [0x130] @ ascii '' down'',
            exc_cause = OtherException (ascii ''AP'' @ [0x130] @ ascii '' down'')\<rparr>"
    by (auto simp: ascii_def)
  have "broken_llm (ascii ''https://example.com'')
          (truncate_content char_level (ascii ''# Test Product'')) =
        Inl (OtherException (ascii ''Connection reset by peer''))"
    by (simp add: broken_llm_def)
  with ok have
    "accepting char_level (ascii ''# Test Product'') =
       Inl (OtherException (ascii ''Connection reset by peer'')) \<or>
     (\<exists>tokens. accepting char_level (ascii ''# Test Product'') = Inr tokens \<and>
        MAX_TOKENS < length tokens \<and>
        accepting char_level (truncate_content (\<lambda>t. tokens) (ascii ''# Test Product'')) =
          Inl (OtherException (ascii ''Connection reset by peer''))) \<or>
     (\<exists>processed_content.
        truncate_content_in_try (accepting char_level) (ascii ''# Test Product'') =
          Inr processed_content \<and>
        broken_llm (ascii ''https://example.com'') processed_content =
          Inl (OtherException (ascii ''Connection reset by peer'')))"
    by blast
  from C8_failures_typed_with_cause
    [where str_lower = sample_lower and tok = "accepting char_level" and llm = broken_llm
      and markdown_content = "ascii ''# Test Product''" and source_url = "ascii ''https://example.com''"
      and e = "OtherException (ascii ''Connection reset by peer'')", OF this]
  m3 have e:
    "fst (extract_from_markdown sample_lower (accepting char_level) broken_llm
            (ascii ''# Test Product'') (ascii ''https://example.com'')) =
       Inl \<lparr>exc_class = Exception,
            exc_str = ascii ''LLM extraction failed for URL https://example.com: Connection reset by peer'',
            exc_cause = OtherException (ascii ''Connection reset by peer'')\<rparr>"
    by (auto simp: ascii_def)
  from a b c d e m1 m2 m3 show ?thesis by blast
qed

section \<open>Workflow\<close>

lemma node_scrape_cases:
  "node_scrape fetch s0 =
     (case fetch (AgentState.url s0) of
        Inr result \<Rightarrow>
          (s0\<lparr>scraped_content := Some (clean_text result), error := None\<rparr>,
           [Enter_scrape, Fetch_page_content (AgentState.url s0)])
      | Inl e \<Rightarrow>
          (s0\<lparr>error := Some (ascii ''Failed to scrape URL '' @ AgentState.url s0 @ ascii '': '' @ e),
              scraped_content := None\<rparr>,
           [Enter_scrape, Fetch_page_content (AgentState.url s0)]))"
  by (simp add: node_scrape_def Let_def)

lemma should_continue_end_iff:
  "should_continue s = Next_end \<longleftrightarrow> (\<exists>msg. error s = Some msg \<and> msg \<noteq> [])"
  by (simp add: should_continue_def split: option.splits)

lemma node_scrape_error_nonempty:
  "node_scrape fetch s0 = (s1, t1) \<Longrightarrow> error s1 \<noteq> Some []"
  by (auto simp: node_scrape_cases ascii_def split: sum.splits)

lemma post_fetch_gate:
  "node_scrape fetch s0 = (s1, t1) \<Longrightarrow> (should_continue s1 = Next_end) = is_set (error s1)"
  using node_scrape_error_nonempty [of fetch s0 s1 t1]
  by (auto simp: should_continue_end_iff is_set_def)

lemma node_scrape_trace:
  "node_scrape fetch s0 = (s1, t1) \<Longrightarrow>
     t1 = [Enter_scrape, Fetch_page_content (AgentState.url s0)]"
  by (auto simp: node_scrape_cases split: sum.splits)

lemma node_scrape_exactly_one:
  "node_scrape fetch s0 = (s1, t1) \<Longrightarrow> is_set (scraped_content s1) \<noteq> is_set (error s1)"
  by (auto simp: node_scrape_cases is_set_def split: sum.splits)

lemma node_extract_exactly_one:
  "is_set (product (fst (node_extract str_lower tok llm s))) \<noteq> is_set (error (fst (node_extract str_lower tok llm s)))"
  by (auto simp: node_extract_def Let_def is_set_def
           split: sum.splits option.splits prod.splits)

lemma node_extract_enters:
  "Enter_extract \<in> set (snd (node_extract str_lower tok llm s))"
  by (auto simp: node_extract_def Let_def split: sum.splits option.splits prod.splits)

lemma graph_cases:
  assumes "node_scrape fetch s0 = (s1, t1)"
  shows "graph fetch str_lower tok llm s0 =
           (if should_continue s1 = Next_end then (s1, t1)
            else (fst (node_extract str_lower tok llm s1), t1 @ snd (node_extract str_lower tok llm s1)))"
  using assms
  by (cases "should_continue s1") (simp_all add: graph_def split: prod.splits)

text \<open>
  C1. The gate is a function of the state alone. On the state the fetch node leaves, it
  answers "end" exactly when the error field is set. If the error is set, the run
  ends with that state having called only the fetch node: the extraction node, the
  extraction service and the model are not called. If it is not set, the gate answers
  "extract" and the run goes on with the extraction node.
\<close>

theorem C1_continuation_gate:
  assumes "node_scrape fetch s0 = (s1, t1)"
  shows "(should_continue s1 = Next_end \<longleftrightarrow> is_set (error s1)) \<and>
         (if is_set (error s1)
          then should_continue s1 = Next_end \<and>
               graph fetch str_lower tok llm s0 =
                 (s1, [Enter_scrape, Fetch_page_content (AgentState.url s0)])
          else should_continue s1 = Next_extract \<and>
               graph fetch str_lower tok llm s0 =
                 (fst (node_extract str_lower tok llm s1),
                  [Enter_scrape, Fetch_page_content (AgentState.url s0)]
                  @ snd (node_extract str_lower tok llm s1)) \<and>
               Enter_extract \<in> set (snd (graph fetch str_lower tok llm s0)))"
proof -
  have gate: "(should_continue s1 = Next_end) = is_set (error s1)"
    using assms by (rule post_fetch_gate)
  have tr: "t1 = [Enter_scrape, Fetch_page_content (AgentState.url s0)]"
    using assms by (rule node_scrape_trace)
  note run = graph_cases [OF assms, of str_lower tok llm]
  show ?thesis
  proof (cases "is_set (error s1)")
    case True
    with gate have "should_continue s1 = Next_end" by simp
    with True gate tr run show ?thesis by simp
  next
    case False
    with gate have "should_continue s1 = Next_extract"
      by (cases "should_continue s1") simp_all
    with False gate tr run node_extract_enters [of str_lower tok llm s1] show ?thesis by simp
  qed
qed

theorem C1_continuation_gate_witness:
  "node_scrape failing_browser initial_state =
     (initial_state\<lparr>error := Some (ascii ''Failed to scrape URL https://example.com: Network error''),
                    scraped_content := None\<rparr>,
      [Enter_scrape, Fetch_page_content (ascii ''https://example.com'')]) \<and>
   should_continue
     (initial_state\<lparr>error := Some (ascii ''Failed to scrape URL https://example.com: Network error''),
                    scraped_content := None\<rparr>) = Next_end \<and>
   graph failing_browser sample_lower (accepting char_level) mock_llm initial_state =
     (initial_state\<lparr>error := Some (ascii ''Failed to scrape URL https://example.com: Network error''),
                    scraped_content := None\<rparr>,
      [Enter_scrape, Fetch_page_content (ascii ''https://example.com'')]) \<and>
   node_scrape mock_browser initial_state =
     (initial_state\<lparr>scraped_content := Some (ascii ''# Test Product''), error := None\<rparr>,
      [Enter_scrape, Fetch_page_content (ascii ''https://example.com'')]) \<and>
   should_continue (initial_state\<lparr>scraped_content := Some (ascii ''# Test Product''), error := None\<rparr>) =
     Next_extract"
proof -
  have fetched:
    "node_scrape mock_browser initial_state =
       (initial_state\<lparr>scraped_content := Some (ascii ''# Test Product''), error := None\<rparr>,
        [Enter_scrape, Fetch_page_content (ascii ''https://example.com'')])"
    by (simp add: node_scrape_def mock_browser_def initial_state_def Let_def)
  from C1_continuation_gate [where fetch = mock_browser and str_lower = sample_lower
      and tok = "accepting char_level" and llm = mock_llm, OF fetched]
  have proceed:
    "should_continue (initial_state\<lparr>scraped_content := Some (ascii ''# Test Product''), error := None\<rparr>) =
       Next_extract"
    by (simp add: is_set_def)
  have scrape:
    "node_scrape failing_browser initial_state =
       (initial_state\<lparr>error := Some (ascii ''Failed to scrape URL https://example.com: Network error''),
                      scraped_content := None\<rparr>,
        [Enter_scrape, Fetch_page_content (ascii ''https://example.com'')])"
    by (simp add: node_scrape_def failing_browser_def initial_state_def Let_def ascii_def)
  from C1_continuation_gate [where fetch = failing_browser and str_lower = sample_lower
      and tok = "accepting char_level" and llm = mock_llm, OF scrape] scrape fetched proceed
  show ?thesis
    by (simp add: is_set_def) (simp add: initial_state_def)
qed

text \<open>
  C2. After the fetch node, exactly one of the scraped content and the error is set.
  When the run reaches the extraction node, exactly one of the product and the error is
  set in the final state; when it does not, the final state is the one the fetch node
  left.
\<close>

theorem C2_exactly_one_field:
  assumes "node_scrape fetch s0 = (s1, t1)" and "graph fetch str_lower tok llm s0 = (s2, t2)"
  shows "is_set (scraped_content s1) \<noteq> is_set (error s1) \<and>
         (if Enter_extract \<in> set t2
          then is_set (product s2) \<noteq> is_set (error s2)
          else s2 = s1)"
proof -
  have one: "is_set (scraped_content s1) \<noteq> is_set (error s1)"
    using assms(1) by (rule node_scrape_exactly_one)
  have tr: "t1 = [Enter_scrape, Fetch_page_content (AgentState.url s0)]"
    using assms(1) by (rule node_scrape_trace)
  note run = graph_cases [OF assms(1), of str_lower tok llm]
  show ?thesis
  proof (cases "should_continue s1 = Next_end")
    case True
    with run assms(2) tr have "s2 = s1" and "Enter_extract \<notin> set t2" by auto
    with one show ?thesis by simp
  next
    case False
    with run assms(2) have s2: "s2 = fst (node_extract str_lower tok llm s1)"
      and t2: "t2 = t1 @ snd (node_extract str_lower tok llm s1)" by auto
    from t2 node_extract_enters [of str_lower tok llm s1] have "Enter_extract \<in> set t2" by simp
    with one s2 node_extract_exactly_one [of str_lower tok llm s1] show ?thesis by simp
  qed
qed

theorem C2_exactly_one_field_witness:
  "node_scrape mock_browser initial_state =
     (initial_state\<lparr>scraped_content := Some (ascii ''# Test Product''), error := None\<rparr>,
      [Enter_scrape, Fetch_page_content (ascii ''https://example.com'')]) \<and>
   graph mock_browser sample_lower (accepting char_level) mock_llm initial_state =
     (initial_state\<lparr>scraped_content := Some (ascii ''# Test Product''), error := None,
                    product := Some (mock_product\<lparr>CompetitorProduct.url := ascii ''https://example.com''\<rparr>)\<rparr>,
      [Enter_scrape, Fetch_page_content (ascii ''https://example.com''), Enter_extract,
       Extract_from_markdown (ascii ''# Test Product'') (ascii ''https://example.com''),
       Llm_ainvoke (ascii ''https://example.com'') (ascii ''# Test Product'')]) \<and>
   is_set (scraped_content (fst (node_scrape mock_browser initial_state))) \<and>
   \<not> is_set (error (fst (node_scrape mock_browser initial_state))) \<and>
   is_set (product (fst (graph mock_browser sample_lower (accepting char_level) mock_llm initial_state))) \<and>
   \<not> is_set (error (fst (graph mock_browser sample_lower (accepting char_level) mock_llm initial_state)))"
proof -
  have tc: "truncate_content_in_try (accepting char_level) (ascii ''# Test Product'') =
              Inr (ascii ''# Test Product'')"
    by (simp add: truncate_content_in_try_accepting truncate_content_within_budget
                  count_tokens_char_level MAX_TOKENS_def ascii_def)
  have nonempty: "ascii ''# Test Product'' \<noteq> []"
    by (simp add: ascii_def)
  have scrape:
    "node_scrape mock_browser initial_state =
       (initial_state\<lparr>scraped_content := Some (ascii ''# Test Product''), error := None\<rparr>,
        [Enter_scrape, Fetch_page_content (ascii ''https://example.com'')])"
    by (simp add: node_scrape_def mock_browser_def initial_state_def Let_def)
  have run:
    "graph mock_browser sample_lower (accepting char_level) mock_llm initial_state =
       (initial_state\<lparr>scraped_content := Some (ascii ''# Test Product''), error := None,
                      product := Some (mock_product\<lparr>CompetitorProduct.url := ascii ''https://example.com''\<rparr>)\<rparr>,
        [Enter_scrape, Fetch_page_content (ascii ''https://example.com''), Enter_extract,
         Extract_from_markdown (ascii ''# Test Product'') (ascii ''https://example.com''),
         Llm_ainvoke (ascii ''https://example.com'') (ascii ''# Test Product'')])"
    using graph_cases [OF scrape, of sample_lower "accepting char_level" mock_llm]
    by (simp add: should_continue_def node_extract_def extract_from_markdown_def tc
                  nonempty mock_llm_def initial_state_def Let_def)
  from C2_exactly_one_field [OF scrape run] scrape run show ?thesis
    by (simp add: is_set_def initial_state_def)
qed

text \<open>
  C10. If the fetch succeeds with the empty text, the gate answers "extract", and
  the extraction node sets the error to the message that the scraped content is missing
  and clears the product, calling neither the extraction service nor the model: the run
  calls the fetch and enters the extraction node, nothing else.
\<close>

theorem C10_empty_page:
  assumes "fetch (AgentState.url s0) = Inr result" and "clean_text result = []"
  shows "should_continue (fst (node_scrape fetch s0)) = Next_extract \<and>
         graph fetch str_lower tok llm s0 =
           (s0\<lparr>scraped_content := Some [],
               error := Some (ascii ''Cannot extract: scraped_content is missing''),
               product := None\<rparr>,
            [Enter_scrape, Fetch_page_content (AgentState.url s0), Enter_extract])"
  using assms
  by (simp add: graph_def node_scrape_cases should_continue_def node_extract_def)

theorem C10_empty_page_witness:
  "blank_browser (AgentState.url initial_state) =
     Inr \<lparr>raw_html = ascii ''<html><body></body></html>'', clean_text = [], screenshot_path = None\<rparr> \<and>
   graph blank_browser sample_lower (accepting char_level) mock_llm initial_state =
     (\<lparr>url = ascii ''https://example.com'', scraped_content = Some [], product = None,
       error = Some (ascii ''Cannot extract: scraped_content is missing'')\<rparr>,
      [Enter_scrape, Fetch_page_content (ascii ''https://example.com''), Enter_extract])"
proof -
  have f: "blank_browser (AgentState.url initial_state) =
     Inr \<lparr>raw_html = ascii ''<html><body></body></html>'', clean_text = [], screenshot_path = None\<rparr>"
    by (simp add: blank_browser_def)
  from C10_empty_page [of blank_browser initial_state _ sample_lower "accepting char_level" mock_llm,
      OF f] f
  show ?thesis
    by (simp add: initial_state_def)
qed

section \<open>Scroll revelation\<close>

lemma stable_at_shift:
  "stable_at api (scroll_step api page) j = stable_at api page (Suc j)"
  by (simp add: stable_at_def funpow_swap1)

text \<open>
  The loop, from any counter and page: it runs \<open>k\<close> iterations, at most the number
  allowed; none before the last found the height unchanged; and if it stopped short, the
  last one did.
\<close>

lemma scroll_loop_spec:
  "scroll_loop api m i page = (p, n) \<Longrightarrow>
     \<exists>k. n = i + k \<and> k \<le> m \<and> p = (scroll_step api ^^ k) page \<and>
         (\<forall>j. Suc j < k \<longrightarrow> \<not> stable_at api page j) \<and>
         (k < m \<longrightarrow> 0 < k \<and> stable_at api page (k - 1))"
proof (induction m arbitrary: i page)
  case 0
  then show ?case by simp
next
  case (Suc m)
  let ?page2 = "scroll_step api page"
  show ?case
  proof (cases "scroll_height api page = scroll_height api ?page2")
    case True
    with Suc.prems have "p = ?page2" and "n = Suc i"
      by (simp_all add: scroll_step_def Let_def)
    moreover from True have "stable_at api page 0"
      by (simp add: stable_at_def)
    ultimately show ?thesis
      by (intro exI [of _ 1]) simp
  next
    case False
    with Suc.prems have "scroll_loop api m (Suc i) ?page2 = (p, n)"
      by (simp add: scroll_step_def Let_def)
    from Suc.IH [OF this] obtain k where k:
      "n = Suc i + k" "k \<le> m" "p = (scroll_step api ^^ k) ?page2"
      "\<forall>j. Suc j < k \<longrightarrow> \<not> stable_at api ?page2 j"
      "k < m \<longrightarrow> 0 < k \<and> stable_at api ?page2 (k - 1)"
      by blast
    from False have changed: "\<not> stable_at api page 0"
      by (simp add: stable_at_def)
    have before: "\<forall>j. Suc j < Suc k \<longrightarrow> \<not> stable_at api page j"
    proof (intro allI impI)
      fix j assume "Suc j < Suc k"
      then show "\<not> stable_at api page j"
        using changed k(4) by (cases j) (simp_all add: stable_at_shift)
    qed
    have short: "Suc k < Suc m \<longrightarrow> 0 < Suc k \<and> stable_at api page (Suc k - 1)"
    proof
      assume "Suc k < Suc m"
      then have "0 < k \<and> stable_at api ?page2 (k - 1)" using k(5) by simp
      then show "0 < Suc k \<and> stable_at api page (Suc k - 1)"
        by (cases k) (simp_all add: stable_at_shift)
    qed
    have "p = (scroll_step api ^^ Suc k) page"
      using k(3) by (simp add: funpow_swap1)
    with k(1,2) before short show ?thesis
      by (intro exI [of _ "Suc k"]) simp
  qed
qed

lemma auto_scroll_spec:
  "\<exists>n. auto_scroll api page m =
         (elapse api 500 (scroll_to api Top ((scroll_step api ^^ n) page)), n) \<and>
       n \<le> m \<and>
       (\<forall>j. Suc j < n \<longrightarrow> \<not> stable_at api page j) \<and>
       (n < m \<longrightarrow> 0 < n \<and> stable_at api page (n - 1))"
proof -
  obtain p n where pn: "scroll_loop api m 0 page = (p, n)"
    by (cases "scroll_loop api m 0 page")
  from scroll_loop_spec [OF pn] have
    "n \<le> m \<and> p = (scroll_step api ^^ n) page \<and>
     (\<forall>j. Suc j < n \<longrightarrow> \<not> stable_at api page j) \<and>
     (n < m \<longrightarrow> 0 < n \<and> stable_at api page (n - 1))"
    by simp
  with pn show ?thesis
    by (intro exI [of _ n]) (simp add: auto_scroll_def)
qed

lemma endless_page_iterate: "(scroll_step endless_page ^^ j) p = p + j"
  by (induction j) (simp_all add: scroll_step_def endless_page_def)

lemma endless_page_never_stable: "\<not> stable_at endless_page p j"
  by (simp add: stable_at_def endless_page_iterate del: funpow.simps)
     (simp add: endless_page_def)

text \<open>
  C7. With the default of 10 iterations the scroll loop returns for every page, after
  \<open>n\<close> iterations with \<open>1 \<le> n \<le> 10\<close>. No iteration before the last found the height
  unchanged, and a run of fewer than 10 iterations ended on one that did: the loop stops
  at the first iteration that leaves the height unchanged, and at the tenth if there is
  none, as on a page whose height never settles. The page returned is the page after
  those \<open>n\<close> scrolls to the bottom, scrolled to the top and left for half a second.
\<close>

theorem C7_scroll_terminates:
  "\<exists>n. auto_scroll api page 10 =
          (elapse api 500 (scroll_to api Top ((scroll_step api ^^ n) page)), n) \<and>
       1 \<le> n \<and> n \<le> 10 \<and>
       (\<forall>j. Suc j < n \<longrightarrow> \<not> stable_at api page j) \<and>
       (n < 10 \<longrightarrow> stable_at api page (n - 1)) \<and>
       ((\<forall>j. \<not> stable_at api page j) \<longrightarrow> n = 10)"
proof -
  from auto_scroll_spec [of api page 10] obtain n where n:
    "auto_scroll api page 10 =
       (elapse api 500 (scroll_to api Top ((scroll_step api ^^ n) page)), n)"
    "n \<le> 10" "\<forall>j. Suc j < n \<longrightarrow> \<not> stable_at api page j"
    "n < 10 \<longrightarrow> 0 < n \<and> stable_at api page (n - 1)"
    by blast
  from n(2,4) have "1 \<le> n" by (cases "n < 10") simp_all
  moreover from n(2,4) have "(\<forall>j. \<not> stable_at api page j) \<longrightarrow> n = 10"
    by (cases "n < 10") auto
  ultimately show ?thesis using n by (intro exI [of _ n]) simp
qed

theorem C7_scroll_terminates_witness:
  "(\<forall>j. \<not> stable_at endless_page 0 j) \<and>
   auto_scroll endless_page 0 10 = (10, 10) \<and>
   auto_scroll settling_page 0 10 = (4, 4) \<and>
   \<not> stable_at settling_page 0 2 \<and>
   stable_at settling_page 0 3"
proof -
  have never: "\<forall>j. \<not> stable_at endless_page 0 j"
    by (simp add: endless_page_never_stable)
  from C7_scroll_terminates [of endless_page 0] never
  have endless: "auto_scroll endless_page 0 10 = (10, 10)"
    by (auto simp: endless_page_iterate) (simp add: endless_page_def)
  have settling: "auto_scroll settling_page 0 10 = (4, 4)"
    by code_simp
  from C7_scroll_terminates [of settling_page 0] settling
  have "stable_at settling_page 0 3" and "\<not> stable_at settling_page 0 2"
    by auto
  with never endless settling show ?thesis by simp
qed

end
